theory Spec2Isabelle
  imports Complex_Main
begin

section \<open>Data model of \<^verbatim>\<open>yolov5/core/evaluator.py\<close>\<close>

text \<open>
  Tensors of floats are modelled over \<open>real\<close>: every comparison the evaluator makes
  (\<open>iou >= iouv[0]\<close>, \<open>matches[:, 2:3] >= iouv\<close>, the sort by IoU) is an order
  comparison, and a NaN overlap fails \<open>>=\<close> and so never becomes a candidate.
  Class ids and row indices are stored by the code as floats holding small
  non-negative integers; they are \<open>nat\<close> here.
\<close>

datatype error = AssertionError | IndexError | ZeroDivisionError | RuntimeError | KeyError

type_synonym box = "real \<times> real \<times> real \<times> real"

text \<open>One row of a prediction tensor: \<open>x1, y1, x2, y2, conf, class\<close> and, when the
  mask head is on, the mask coefficients in the columns from 6 on.\<close>

record detection =
  d_box :: box
  d_conf :: real
  d_cls :: nat
  d_coef :: "real list"

text \<open>One row of \<open>labelsn\<close>: \<open>class, x1, y1, x2, y2\<close>.\<close>

record label =
  l_cls :: nat
  l_box :: box

text \<open>One row of \<open>targets\<close>: \<open>image index in batch, class, x, y, w, h\<close>.\<close>

record target =
  t_img :: nat
  t_cls :: nat
  t_xywh :: box

text \<open>One row of \<open>matches\<close>: \<open>[label, detection, iou]\<close>.\<close>

type_synonym match = "nat \<times> nat \<times> real"

definition m_label :: "match \<Rightarrow> nat" where
  "m_label m = fst m"

definition m_det :: "match \<Rightarrow> nat" where
  "m_det m = fst (snd m)"

definition m_iou :: "match \<Rightarrow> real" where
  "m_iou m = snd (snd m)"

section \<open>numpy and torch primitives used by the matcher\<close>

text \<open>\<open>a.argsort()\<close>: the indices that sort \<open>a\<close> ascending. numpy leaves the order
  of equal keys to the sorting kernel; the model takes the stable order (what the
  insertion sort used on short arrays gives). No theorem below depends on how ties
  are ordered.\<close>

definition argsort :: "real list \<Rightarrow> nat list" where
  "argsort vs = map snd (sort_key fst (zip vs [0..<length vs]))"

text \<open>\<open>xs[idx]\<close> with an index array: the rows of \<open>xs\<close> at the positions \<open>idx\<close>, in
  the order of \<open>idx\<close>. Every index the matcher uses is produced from \<open>xs\<close> itself and
  is in range.\<close>

definition take_rows :: "'a list \<Rightarrow> nat list \<Rightarrow> 'a list" where
  "take_rows xs idx = map (\<lambda>i. xs ! i) idx"

fun first_index :: "'a list \<Rightarrow> 'a \<Rightarrow> nat" where
  "first_index [] v = 0"
| "first_index (x # xs) v = (if x = v then 0 else Suc (first_index xs v))"

text \<open>\<open>np.unique(ks, return_index=True)[1]\<close>: for every distinct value of \<open>ks\<close>, taken
  in ascending order of the value, the position of its first occurrence in \<open>ks\<close>.\<close>

definition unique_index :: "nat list \<Rightarrow> nat list" where
  "unique_index ks = map (first_index ks) (sort (remdups ks))"

section \<open>The matcher: \<open>process_batch\<close>\<close>

text \<open>\<open>torch.where((iou >= iouv[0]) & (labels[:, 0:1] == detections[:, 5]))\<close> stacked
  with the overlap: the candidate rows \<open>[label, detection, iou]\<close> in row-major order of
  the \<open>labels \<times> detections\<close> overlap matrix \<open>iou\<close>.\<close>

definition candidates ::
  "(nat \<Rightarrow> nat \<Rightarrow> real) \<Rightarrow> detection list \<Rightarrow> label list \<Rightarrow> real \<Rightarrow> match list" where
  "candidates iou detections labels t0 =
     [(i, j, iou i j). i \<leftarrow> [0..<length labels], j \<leftarrow> [0..<length detections],
        t0 \<le> iou i j \<and> l_cls (labels ! i) = d_cls (detections ! j)]"

text \<open>The three statements under \<open>if x[0].shape[0] > 1\<close>, one definition each:
  \<^verbatim>\<open>matches = matches[matches[:, 2].argsort()[::-1]]\<close>
  \<^verbatim>\<open>matches = matches[np.unique(matches[:, 1], return_index=True)[1]]\<close>
  \<^verbatim>\<open>matches = matches[np.unique(matches[:, 0], return_index=True)[1]]\<close>
  The source keeps a second sort by IoU between the last two only as a comment.\<close>

definition sort_by_iou :: "match list \<Rightarrow> match list" where
  "sort_by_iou matches = take_rows matches (rev (argsort (map m_iou matches)))"

definition unique_det :: "match list \<Rightarrow> match list" where
  "unique_det matches = take_rows matches (unique_index (map m_det matches))"

definition unique_label :: "match list \<Rightarrow> match list" where
  "unique_label matches = take_rows matches (unique_index (map m_label matches))"

definition dedup :: "match list \<Rightarrow> match list" where
  "dedup matches = unique_label (unique_det (sort_by_iou matches))"

text \<open>The value of \<open>matches\<close> when it is written into \<open>correct\<close>.\<close>

definition surviving ::
  "(nat \<Rightarrow> nat \<Rightarrow> real) \<Rightarrow> detection list \<Rightarrow> label list \<Rightarrow> real \<Rightarrow> match list" where
  "surviving iou detections labels t0 =
     (let x = candidates iou detections labels t0
      in if 1 < length x then dedup x else x)"

text \<open>\<open>correct[matches[:, 1].long()] = matches[:, 2:3] >= iouv\<close>: the row of every
  matched detection becomes the comparison of its IoU with each threshold.\<close>

fun assign_rows :: "bool list list \<Rightarrow> match list \<Rightarrow> real list \<Rightarrow> bool list list" where
  "assign_rows correct [] iouv = correct"
| "assign_rows correct (m # ms) iouv =
     assign_rows (correct[m_det m := map (\<lambda>t. t \<le> m_iou m) iouv]) ms iouv"

text \<open>\<open>torch.zeros(n, k, dtype=torch.bool)\<close>.\<close>

definition zeros :: "nat \<Rightarrow> nat \<Rightarrow> bool list list" where
  "zeros n k = replicate n (replicate k False)"

text \<open>The part of \<open>process_batch\<close> and of \<open>process_batch_masks\<close> after the overlap
  matrix is known; the source repeats it verbatim in both. \<open>iouv[0]\<close> on an empty
  threshold tensor raises.\<close>

definition match_correct ::
  "(nat \<Rightarrow> nat \<Rightarrow> real) \<Rightarrow> detection list \<Rightarrow> label list \<Rightarrow> real list
     \<Rightarrow> error + bool list list" where
  "match_correct iou detections labels iouv =
     (case iouv of
        [] \<Rightarrow> Inl IndexError
      | t0 # _ \<Rightarrow>
          Inr (assign_rows (zeros (length detections) (length iouv))
                 (surviving iou detections labels t0) iouv))"

text \<open>\<open>process_batch(detections, labels, iouv)\<close>. \<open>box_iou\<close> is imported from
  \<open>utils.boxes\<close>; it is the parameter \<open>iou_fn\<close> here, applied to one label box and
  one detection box.\<close>

definition process_batch ::
  "(box \<Rightarrow> box \<Rightarrow> real) \<Rightarrow> detection list \<Rightarrow> label list \<Rightarrow> real list
     \<Rightarrow> error + bool list list" where
  "process_batch iou_fn detections labels iouv =
     match_correct (\<lambda>i j. iou_fn (l_box (labels ! i)) (d_box (detections ! j)))
       detections labels iouv"

text \<open>Modelled from the spec: \<open>utils.boxes.box_iou\<close> is not among the sources; the
  glossary defines IoU as the area of the intersection divided by the area of the
  union. It instantiates \<open>iou_fn\<close> on concrete inputs only; every general theorem
  holds for any overlap function.\<close>

definition box_area :: "box \<Rightarrow> real" where
  "box_area b = (case b of (x1, y1, x2, y2) \<Rightarrow> (x2 - x1) * (y2 - y1))"

definition box_inter :: "box \<Rightarrow> box \<Rightarrow> real" where
  "box_inter a b =
     (case a of (ax1, ay1, ax2, ay2) \<Rightarrow> case b of (bx1, by1, bx2, by2) \<Rightarrow>
        max 0 (min ax2 bx2 - max ax1 bx1) * max 0 (min ay2 by2 - max ay1 by1))"

definition box_iou_spec :: "box \<Rightarrow> box \<Rightarrow> real" where
  "box_iou_spec a b = box_inter a b / (box_area a + box_area b - box_inter a b)"

section \<open>Collaborators that are imported, not defined, by the evaluator\<close>

text \<open>The functions of \<open>utils.boxes\<close>, \<open>utils.segment\<close> and \<open>utils.metrics\<close> that
  the evaluator calls. Their code is not part of the file; the model takes them as
  parameters, so every theorem holds whatever they compute. \<open>'proto\<close> is the
  prototype tensor of one image, \<open>'gm\<close> one ground-truth mask, \<open>'pm\<close> the tensor of
  the predicted masks of one image. \<open>masks_shape\<close> reads \<open>shape[1]\<close> and \<open>shape[2]\<close>
  of the ground-truth masks; \<open>interpolate\<close> is \<open>F.interpolate\<close> to the predicted
  masks' size; \<open>mask_iou\<close> gives the entry of the overlap matrix at a label index and
  a detection index. The plotting arguments of \<open>ap_per_class\<close> (\<open>plots\<close>, the
  directory, the names) only draw curves and are left out.\<close>

type_synonym results = "real list \<times> real list \<times> real list list \<times> real list \<times> nat list"

record ('proto, 'gm, 'pm) externals =
  box_iou :: "box \<Rightarrow> box \<Rightarrow> real"
  xywh2xyxy :: "box \<Rightarrow> box"
  xyxy2xywh :: "box \<Rightarrow> box"
  process_mask :: "'proto \<Rightarrow> real list list \<Rightarrow> box list \<Rightarrow> nat \<times> nat \<Rightarrow> 'pm"
  process_mask_upsample :: "'proto \<Rightarrow> real list list \<Rightarrow> box list \<Rightarrow> nat \<times> nat \<Rightarrow> 'pm"
  masks_shape :: "'gm list \<Rightarrow> nat \<times> nat"
  interpolate :: "'gm list \<Rightarrow> 'pm \<Rightarrow> 'gm list"
  mask_iou :: "'gm list \<Rightarrow> 'pm \<Rightarrow> nat \<Rightarrow> nat \<Rightarrow> real"
  ap_per_class :: "bool list list \<Rightarrow> real list \<Rightarrow> nat list \<Rightarrow> nat list \<Rightarrow> results"
  ap_per_class_box_and_mask ::
    "bool list list \<Rightarrow> bool list list \<Rightarrow> real list \<Rightarrow> nat list \<Rightarrow> nat list
       \<Rightarrow> results \<times> results"

section \<open>The evaluator object\<close>

text \<open>The attributes \<open>__init__\<close> fixes for a run. \<open>mask_head\<close> is \<open>self.mask\<close>;
  \<open>save_dir_exists\<close> is the answer of \<open>self.save_dir.exists()\<close>.\<close>

record config =
  single_cls :: bool
  plots :: bool
  verbose :: bool
  mask_head :: bool
  mask_downsample_ratio :: nat
  nc :: nat
  names :: "string list"
  class_map :: "nat list"
  save_dir_exists :: bool

text \<open>\<open>self.iouv = torch.linspace(0.5, 0.95, 10)\<close> and \<open>self.niou = self.iouv.numel()\<close>.\<close>

definition self_iouv :: "real list" where
  "self_iouv = map (\<lambda>k. 1 / 2 + real k * ((95 / 100 - 1 / 2) / 9)) [0..<10]"

definition self_niou :: nat where
  "self_niou = length self_iouv"

text \<open>One tuple appended to \<open>self.stats\<close>, components in the order of the tuple:
  in the branch for images with detections the first is \<open>correct_masks\<close> and the
  second \<open>correct_boxes\<close>.\<close>

record stat =
  s_masks :: "bool list list"
  s_boxes :: "bool list list"
  s_conf :: "real list"
  s_pcls :: "nat list"
  s_tcls :: "nat list"

text \<open>class \<open>Metric\<close>; the fields \<open>p\<close>, \<open>r\<close> and \<open>f1\<close> carry the prefix \<open>mt_\<close>.\<close>

record metric =
  mt_p :: "real list"
  mt_r :: "real list"
  mt_f1 :: "real list"
  all_ap :: "real list list"
  ap_class_index :: "nat list"

text \<open>\<open>self.metric = Metrics() if self.mask else Metric()\<close>.\<close>

datatype any_metric = Single metric | BoxAndMask metric metric

record json_entry =
  image_id :: "string + nat"
  category_id :: nat
  bbox :: "real list"
  score :: real

text \<open>The mutable attributes of the evaluator. \<open>confusion_matrix\<close> records the
  arguments of each \<open>self.confusion_matrix.process_batch\<close> call.\<close>

record 'pm evaluator =
  seen :: nat
  stats :: "stat list"
  pred_masks :: "'pm list"
  confusion_matrix :: "(detection list \<times> label list) list"
  metric :: any_metric
  dt :: "real \<times> real \<times> real"
  jdict :: "json_entry list"

definition Metric_init :: metric where
  "Metric_init = \<lparr>mt_p = [], mt_r = [], mt_f1 = [], all_ap = [], ap_class_index = []\<rparr>"

text \<open>The mutable attributes as \<open>__init__\<close> leaves them.\<close>

definition evaluator_init :: "config \<Rightarrow> 'pm evaluator" where
  "evaluator_init cfg =
     \<lparr>seen = 0, stats = [], pred_masks = [], confusion_matrix = [],
      metric = (if mask_head cfg then BoxAndMask Metric_init Metric_init else Single Metric_init),
      dt = (0, 0, 0), jdict = []\<rparr>"

section \<open>\<open>process_batch_masks\<close>\<close>

text \<open>The assertion is the first statement. \<open>.permute(2, 0, 1).contiguous()\<close> is part
  of what \<open>process_mask\<close> and \<open>process_mask_upsample\<close> stand for.\<close>

definition process_batch_masks ::
  "('proto, 'gm, 'pm) externals \<Rightarrow> config \<Rightarrow> detection list \<Rightarrow> 'proto option
     \<Rightarrow> 'gm list option \<Rightarrow> label list \<Rightarrow> error + bool list list \<times> 'pm option" where
  "process_batch_masks ext cfg predn proto_out gt_masksi labels =
     (if (proto_out = None) \<noteq> (gt_masksi = None) then Inl AssertionError
      else case (proto_out, gt_masksi) of
        (Some proto, Some gt) \<Rightarrow>
          (let process = (if plots cfg then process_mask_upsample ext else process_mask ext);
               gt_shape = (fst (masks_shape ext gt) * mask_downsample_ratio cfg,
                           snd (masks_shape ext gt) * mask_downsample_ratio cfg);
               pred_maski = process proto (map d_coef predn) (map d_box predn) gt_shape;
               gt2 = (if \<not> plots cfg then interpolate ext gt pred_maski else gt)
           in case match_correct (mask_iou ext gt2 pred_maski) predn labels self_iouv of
                Inl e \<Rightarrow> Inl e
              | Inr correct \<Rightarrow> Inr (correct, Some pred_maski))
      | _ \<Rightarrow> Inr (zeros 0 self_niou, None))"

section \<open>\<open>compute_stat\<close>\<close>

text \<open>\<open>gt_masks if gt_masks is None else gt_masks[targets[:, 0] == si]\<close>: a boolean
  index of another length than the tensor raises.\<close>

definition select_masks :: "nat \<Rightarrow> target list \<Rightarrow> 'gm list option \<Rightarrow> error + 'gm list option" where
  "select_masks si targets gt_masks =
     (case gt_masks of
        None \<Rightarrow> Inr None
      | Some gm \<Rightarrow>
          if length gm \<noteq> length targets then Inl IndexError
          else Inr (Some (map snd (filter (\<lambda>tm. t_img (fst tm) = si) (zip targets gm)))))"

text \<open>\<open>train_out[1][si] if isinstance(train_out, tuple) else None\<close>; \<open>train_out\<close> is
  \<open>Some\<close> of the prototypes \<open>train_out[1]\<close> when it is a tuple.\<close>

definition select_proto :: "nat \<Rightarrow> 'proto list option \<Rightarrow> error + 'proto option" where
  "select_proto si train_out =
     (case train_out of
        None \<Rightarrow> Inr None
      | Some protos \<Rightarrow> if si < length protos then Inr (Some (protos ! si)) else Inl IndexError)"

text \<open>\<open>predn[:, 5] = 0\<close>.\<close>

definition coerce_cls :: "detection list \<Rightarrow> detection list" where
  "coerce_cls predn = map (\<lambda>d. d\<lparr>d_cls := 0\<rparr>) predn"

text \<open>\<open>compute_stat\<close> writes into the tensor \<open>predn\<close> it is handed and into \<open>self\<close>.
  The model returns the final contents of that tensor next to the new evaluator; the
  caller stores them under the reference it passed.\<close>

definition compute_stat ::
  "('proto, 'gm, 'pm) externals \<Rightarrow> config \<Rightarrow> nat \<Rightarrow> detection list \<Rightarrow> target list
     \<Rightarrow> 'gm list option \<Rightarrow> 'proto list option \<Rightarrow> 'pm evaluator
     \<Rightarrow> error + detection list \<times> 'pm evaluator" where
  "compute_stat ext cfg si predn targets gt_masks train_out self =
     (let labels = filter (\<lambda>t. t_img t = si) targets in
      case select_masks si targets gt_masks of
        Inl e \<Rightarrow> Inl e
      | Inr masksi \<Rightarrow>
      case select_proto si train_out of
        Inl e \<Rightarrow> Inl e
      | Inr proto_out \<Rightarrow>
      let nl = length labels;
          tcls = (if nl \<noteq> 0 then map t_cls labels else [])
      in if length predn = 0 then
           (if nl \<noteq> 0 then
              Inr (predn, self\<lparr>stats := stats self @
                [\<lparr>s_masks = zeros 0 self_niou, s_boxes = zeros 0 self_niou,
                  s_conf = [], s_pcls = [], s_tcls = tcls\<rparr>]\<rparr>)
            else Inr (predn, self))
         else
           let predn = (if single_cls cfg then coerce_cls predn else predn) in
           if nl \<noteq> 0 then
             (let labelsn = map (\<lambda>t. \<lparr>l_cls = t_cls t, l_box = xywh2xyxy ext (t_xywh t)\<rparr>) labels in
              case process_batch (box_iou ext) predn labelsn self_iouv of
                Inl e \<Rightarrow> Inl e
              | Inr correct_boxes \<Rightarrow>
              case process_batch_masks ext cfg predn proto_out masksi labelsn of
                Inl e \<Rightarrow> Inl e
              | Inr (correct_masks, pred_maski) \<Rightarrow>
              let self1 =
                (if plots cfg then
                   self\<lparr>confusion_matrix := confusion_matrix self @ [(predn, labelsn)],
                        pred_masks := (case pred_maski of
                                         None \<Rightarrow> pred_masks self
                                       | Some pm \<Rightarrow> pred_masks self @ [pm])\<rparr>
                 else self)
              in Inr (predn, self1\<lparr>stats := stats self1 @
                   [\<lparr>s_masks = correct_masks, s_boxes = correct_boxes,
                     s_conf = map d_conf predn, s_pcls = map d_cls predn, s_tcls = tcls\<rparr>]\<rparr>))
           else
             Inr (predn, self\<lparr>stats := stats self @
               [\<lparr>s_masks = zeros (length predn) self_niou, s_boxes = zeros (length predn) self_niou,
                 s_conf = map d_conf predn, s_pcls = map d_cls predn, s_tcls = tcls\<rparr>]\<rparr>))"

section \<open>class \<open>Metric\<close> and class \<open>Metrics\<close>\<close>

text \<open>\<open>a.mean()\<close>. numpy gives NaN for an empty array and HOL gives 0; every use below
  on a possibly empty array is guarded by \<open>len\<close>, as in the source.\<close>

definition mean :: "real list \<Rightarrow> real" where
  "mean xs = sum_list xs / real (length xs)"

text \<open>\<open>all_ap[:, 0]\<close>: column 0 of a two-dimensional array; an array with no column
  raises.\<close>

definition col0 :: "real list list \<Rightarrow> error + real list" where
  "col0 rows = (if list_ex (\<lambda>row. row = []) rows then Inl IndexError else Inr (map hd rows))"

definition ap50 :: "metric \<Rightarrow> error + real list" where
  "ap50 m = (if length (all_ap m) \<noteq> 0 then col0 (all_ap m) else Inr [])"

definition ap :: "metric \<Rightarrow> real list" where
  "ap m = (if length (all_ap m) \<noteq> 0 then map mean (all_ap m) else [])"

definition mp :: "metric \<Rightarrow> real" where
  "mp m = (if length (mt_p m) \<noteq> 0 then mean (mt_p m) else 0)"

definition mr :: "metric \<Rightarrow> real" where
  "mr m = (if length (mt_r m) \<noteq> 0 then mean (mt_r m) else 0)"

definition map50 :: "metric \<Rightarrow> error + real" where
  "map50 m =
     (if length (all_ap m) \<noteq> 0 then
        (case col0 (all_ap m) of Inl e \<Rightarrow> Inl e | Inr c \<Rightarrow> Inr (mean c))
      else Inr 0)"

text \<open>The property \<open>map\<close>; the name carries a suffix because \<open>map\<close> is the list
  functional.\<close>

definition map_metric :: "metric \<Rightarrow> real" where
  "map_metric m = (if length (all_ap m) \<noteq> 0 then mean (concat (all_ap m)) else 0)"

text \<open>\<open>mean_results\<close>: the tuple \<open>(mp, mr, map50, map)\<close>, as a list so that \<open>Metrics\<close>
  can concatenate two of them.\<close>

definition mean_results :: "metric \<Rightarrow> error + real list" where
  "mean_results m =
     (case map50 m of Inl e \<Rightarrow> Inl e | Inr m50 \<Rightarrow> Inr [mp m, mr m, m50, map_metric m])"

text \<open>\<open>class_result(i)\<close>: \<open>(p[i], r[i], ap50[i], ap[i])\<close>.\<close>

definition class_result :: "metric \<Rightarrow> nat \<Rightarrow> error + real list" where
  "class_result m i =
     (if length (mt_p m) \<le> i \<or> length (mt_r m) \<le> i then Inl IndexError
      else case ap50 m of
        Inl e \<Rightarrow> Inl e
      | Inr a50 \<Rightarrow>
          if length a50 \<le> i \<or> length (ap m) \<le> i then Inl IndexError
          else Inr [mt_p m ! i, mt_r m ! i, a50 ! i, ap m ! i])"

text \<open>The loop of \<open>get_maps\<close> over \<open>enumerate(self.ap_class_index)\<close>:
  \<open>maps[c] = self.ap[i]\<close>. Either index out of range raises.\<close>

fun get_maps_loop :: "real list \<Rightarrow> (nat \<times> nat) list \<Rightarrow> real list \<Rightarrow> error + real list" where
  "get_maps_loop aps [] maps = Inr maps"
| "get_maps_loop aps ((i, c) # rest) maps =
     (if length aps \<le> i \<or> length maps \<le> c then Inl IndexError
      else get_maps_loop aps rest (maps[c := aps ! i]))"

text \<open>\<open>maps = np.zeros(nc) + self.map\<close>, then the loop.\<close>

definition get_maps :: "metric \<Rightarrow> nat \<Rightarrow> error + real list" where
  "get_maps m n =
     get_maps_loop (ap m) (enumerate 0 (ap_class_index m)) (replicate n (map_metric m))"

text \<open>\<open>Metric.update(results)\<close>.\<close>

definition update :: "results \<Rightarrow> metric" where
  "update res =
     (case res of (p, r, aps, f1, idx) \<Rightarrow>
        \<lparr>mt_p = p, mt_r = r, mt_f1 = f1, all_ap = aps, ap_class_index = idx\<rparr>)"

text \<open>The methods of the object in \<open>self.metric\<close>, whichever class it has. For
  \<open>Metrics\<close>, \<open>+\<close> concatenates the tuples of \<open>mean_results\<close> and \<open>class_result\<close> and
  adds the arrays of \<open>get_maps\<close> entry by entry.\<close>

fun any_mean_results :: "any_metric \<Rightarrow> error + real list" where
  "any_mean_results (Single m) = mean_results m"
| "any_mean_results (BoxAndMask b m) =
     (case mean_results b of
        Inl e \<Rightarrow> Inl e
      | Inr rb \<Rightarrow> (case mean_results m of Inl e \<Rightarrow> Inl e | Inr rm \<Rightarrow> Inr (rb @ rm)))"

fun any_class_result :: "any_metric \<Rightarrow> nat \<Rightarrow> error + real list" where
  "any_class_result (Single m) i = class_result m i"
| "any_class_result (BoxAndMask b m) i =
     (case class_result b i of
        Inl e \<Rightarrow> Inl e
      | Inr rb \<Rightarrow> (case class_result m i of Inl e \<Rightarrow> Inl e | Inr rm \<Rightarrow> Inr (rb @ rm)))"

fun any_get_maps :: "any_metric \<Rightarrow> nat \<Rightarrow> error + real list" where
  "any_get_maps (Single m) n = get_maps m n"
| "any_get_maps (BoxAndMask b m) n =
     (case get_maps b n of
        Inl e \<Rightarrow> Inl e
      | Inr mb \<Rightarrow>
          (case get_maps m n of Inl e \<Rightarrow> Inl e | Inr mm \<Rightarrow> Inr (map2 (+) mb mm)))"

fun any_ap_class_index :: "any_metric \<Rightarrow> nat list" where
  "any_ap_class_index (Single m) = ap_class_index m"
| "any_ap_class_index (BoxAndMask b m) = ap_class_index b"

section \<open>\<open>after_infer\<close>\<close>

text \<open>\<open>np.bincount(x, minlength=n)\<close>.\<close>

definition bincount :: "nat list \<Rightarrow> nat \<Rightarrow> nat list" where
  "bincount xs n =
     map (\<lambda>c. count_list xs c) [0..<max n (if xs = [] then 0 else Suc (fold max xs 0))]"

text \<open>\<open>a.any()\<close> of a boolean matrix.\<close>

definition any_true :: "bool list list \<Rightarrow> bool" where
  "any_true a = list_ex (\<lambda>row. list_ex (\<lambda>b. b) row) a"

text \<open>The loop of \<open>print_metric\<close> under \<open>verbose\<close>: nothing but printing, except that
  \<open>self.names[c]\<close>, \<open>nt[c]\<close> and \<open>class_result(i)\<close> can raise.\<close>

fun print_class_rows :: "config \<Rightarrow> nat list \<Rightarrow> any_metric \<Rightarrow> (nat \<times> nat) list \<Rightarrow> error + unit" where
  "print_class_rows cfg nt m [] = Inr ()"
| "print_class_rows cfg nt m ((i, c) # rest) =
     (if length (names cfg) \<le> c then Inl KeyError
      else if length nt \<le> c then Inl IndexError
      else case any_class_result m i of
        Inl e \<Rightarrow> Inl e
      | Inr _ \<Rightarrow> print_class_rows cfg nt m rest)"

text \<open>\<open>print_metric(nt, stats)\<close>; \<open>n_stats\<close> is \<open>len(stats)\<close>.\<close>

definition print_metric :: "config \<Rightarrow> nat list \<Rightarrow> nat \<Rightarrow> any_metric \<Rightarrow> error + unit" where
  "print_metric cfg nt n_stats m =
     (case any_mean_results m of
        Inl e \<Rightarrow> Inl e
      | Inr _ \<Rightarrow>
          if verbose cfg \<and> 1 < nc cfg \<and> n_stats \<noteq> 0
          then print_class_rows cfg nt m (enumerate 0 (any_ap_class_index m))
          else Inr ())"

text \<open>\<open>tuple(x / self.seen * 1e3 for x in self.dt)\<close>: \<open>self.dt\<close> holds three Python
  floats and \<open>self.seen\<close> is a Python int, so a zero count raises.\<close>

definition speeds :: "real \<times> real \<times> real \<Rightarrow> nat \<Rightarrow> error + real \<times> real \<times> real" where
  "speeds d n =
     (if n = 0 then Inl ZeroDivisionError
      else case d of (a, b, c) \<Rightarrow>
        Inr (a / real n * 1000, b / real n * 1000, c / real n * 1000))"

text \<open>\<open>after_infer\<close>. \<open>zip(*self.stats)\<close> of an empty list yields nothing, so
  \<open>stats\<close> is then the empty list and \<open>stats[0]\<close> raises; otherwise it has five
  columns, each concatenated over the images. Plotting the confusion matrix is
  left out.\<close>

definition after_infer ::
  "('proto, 'gm, 'pm) externals \<Rightarrow> config \<Rightarrow> 'pm evaluator
     \<Rightarrow> error + (real \<times> real \<times> real) \<times> 'pm evaluator" where
  "after_infer ext cfg self =
     (if stats self = [] then Inl IndexError
      else
        let masks = concat (map s_masks (stats self));
            boxes = concat (map s_boxes (stats self));
            conf = concat (map s_conf (stats self));
            pcls = concat (map s_pcls (stats self));
            tcls = concat (map s_tcls (stats self));
            box_or_mask_any = (any_true masks \<or> any_true boxes);
            n_stats = (if \<not> mask_head cfg then 4 else 5 :: nat);
            metric_nt =
              (if n_stats \<noteq> 0 \<and> box_or_mask_any then
                 ((if mask_head cfg then
                     (case ap_per_class_box_and_mask ext masks boxes conf pcls tcls of
                        (rb, rm) \<Rightarrow> BoxAndMask (update rb) (update rm))
                   else Single (update (ap_per_class ext boxes conf pcls tcls))),
                  bincount tcls (nc cfg))
               else (metric self, [0]));
            self1 = self\<lparr>metric := fst metric_nt, stats := []\<rparr>
        in case print_metric cfg (snd metric_nt) n_stats (metric self1) of
             Inl e \<Rightarrow> Inl e
           | Inr _ \<Rightarrow>
               (case speeds (dt self1) (seen self1) of
                  Inl e \<Rightarrow> Inl e
                | Inr t \<Rightarrow> Inr (t, self1)))"

section \<open>Saving results and the image loop of \<open>run\<close>\<close>

text \<open>One line of a label file: \<open>(cls, *xywh, conf)\<close> or \<open>(cls, *xywh)\<close>.\<close>

type_synonym txt_line = "nat \<times> box \<times> real option"

text \<open>\<open>save_one_txt\<close>: \<open>for *xyxy, conf, cls in predn.tolist()\<close> takes the last two
  columns of a row as \<open>conf\<close> and \<open>cls\<close>; with mask coefficients in the row, \<open>xyxy\<close> has
  more than four entries and \<open>view(1, 4)\<close> raises. \<open>shape\<close> is \<open>(height, width)\<close> and
  \<open>gn\<close> is \<open>(w, h, w, h)\<close>.\<close>

fun save_one_txt ::
  "(box \<Rightarrow> box) \<Rightarrow> detection list \<Rightarrow> bool \<Rightarrow> real \<times> real \<Rightarrow> error + txt_line list" where
  "save_one_txt to_xywh [] save_conf shape = Inr []"
| "save_one_txt to_xywh (d # ds) save_conf shape =
     (if d_coef d \<noteq> [] then Inl RuntimeError
      else case save_one_txt to_xywh ds save_conf shape of
        Inl e \<Rightarrow> Inl e
      | Inr ls \<Rightarrow>
          (case to_xywh (d_box d) of (x, y, w, h) \<Rightarrow>
             Inr ((d_cls d, (x / snd shape, y / fst shape, w / snd shape, h / fst shape),
                   (if save_conf then Some (d_conf d) else None)) # ls)))"

text \<open>\<open>round(x, n)\<close> of Python: to the nearest multiple of \<open>10^-n\<close>, a tie to the
  even one.\<close>

definition py_round :: "real \<Rightarrow> nat \<Rightarrow> real" where
  "py_round x n =
     (let y = x * 10 ^ n; f = \<lfloor>y\<rfloor>
      in real_of_int (if y - real_of_int f < 1 / 2 then f
                      else if 1 / 2 < y - real_of_int f then f + 1
                      else if even f then f else f + 1) / 10 ^ n)"

text \<open>\<open>int(path.stem) if path.stem.isnumeric() else path.stem\<close>, for a stem of ASCII
  characters.\<close>

definition stem_id :: "string \<Rightarrow> string + nat" where
  "stem_id stem =
     (if stem \<noteq> [] \<and> list_all (\<lambda>ch. 48 \<le> (of_char ch :: nat) \<and> (of_char ch :: nat) \<le> 57) stem
      then Inr (foldl (\<lambda>n ch. 10 * n + (of_char ch - 48)) 0 stem)
      else Inl stem)"

text \<open>\<open>save_one_json\<close>: the entries appended to \<open>jdict\<close>. \<open>class_map[int(p[5])]\<close>
  raises for a class beyond the table.\<close>

fun save_one_json ::
  "(box \<Rightarrow> box) \<Rightarrow> detection list \<Rightarrow> string \<Rightarrow> nat list \<Rightarrow> error + json_entry list" where
  "save_one_json to_xywh [] stem cmap = Inr []"
| "save_one_json to_xywh (d # ds) stem cmap =
     (if length cmap \<le> d_cls d then Inl IndexError
      else case save_one_json to_xywh ds stem cmap of
        Inl e \<Rightarrow> Inl e
      | Inr js \<Rightarrow>
          (case to_xywh (d_box d) of (x, y, w, h) \<Rightarrow>
             Inr (\<lparr>image_id = stem_id stem, category_id = cmap ! d_cls d,
                   bbox = map (\<lambda>v. py_round v 3) [x - w / 2, y - h / 2, w, h],
                   score = py_round (d_conf d) 5\<rparr> # js)))"

text \<open>The state the image loop of \<open>run\<close> works on: the prediction tensors, each under
  the reference the code holds it by, the evaluator, and the lines appended to the
  label files with the stem of the file's name.\<close>

record 'pm world =
  tensors :: "detection list list"
  evaluator :: "'pm evaluator"
  files :: "(string \<times> txt_line) list"

text \<open>\<open>pred.clone()\<close>: a new tensor with the same contents, under a new reference.\<close>

definition clone :: "'pm world \<Rightarrow> nat \<Rightarrow> nat \<times> 'pm world" where
  "clone w a = (length (tensors w), w\<lparr>tensors := tensors w @ [tensors w ! a]\<rparr>)"

text \<open>The body of \<open>for si, pred in enumerate(out)\<close> in \<open>run\<close>; \<open>pred\<close> is the reference
  of the image's prediction tensor. \<open>paths\<close> holds the stems of the image paths and
  \<open>shapes\<close> the pairs \<open>shapes[si][0]\<close>.\<close>

definition run_image ::
  "('proto, 'gm, 'pm) externals \<Rightarrow> config \<Rightarrow> bool \<Rightarrow> bool \<Rightarrow> bool \<Rightarrow> nat \<Rightarrow> nat
     \<Rightarrow> string list \<Rightarrow> (real \<times> real) list \<Rightarrow> target list \<Rightarrow> 'gm list option
     \<Rightarrow> 'proto list option \<Rightarrow> 'pm world \<Rightarrow> error + 'pm world" where
  "run_image ext cfg save_txt save_conf save_json si pred paths shapes targets masks train_out w =
     (let w1 = w\<lparr>evaluator := (evaluator w)\<lparr>seen := seen (evaluator w) + 1\<rparr>\<rparr> in
      if length paths \<le> si then Inl IndexError
      else
        let path = paths ! si;
            (predn, w2) = clone w1 pred
        in if length shapes \<le> si then Inl IndexError
           else
             let shape = shapes ! si in
             case compute_stat ext cfg si (tensors w2 ! predn) targets masks train_out
                    (evaluator w2) of
               Inl e \<Rightarrow> Inl e
             | Inr (predn_final, self1) \<Rightarrow>
                 let w3 = w2\<lparr>tensors := (tensors w2)[predn := predn_final], evaluator := self1\<rparr> in
                 case (if save_txt \<and> save_dir_exists cfg then
                         (case save_one_txt (xyxy2xywh ext) (tensors w3 ! pred) save_conf shape of
                            Inl e \<Rightarrow> Inl e
                          | Inr ls \<Rightarrow> Inr (w3\<lparr>files := files w3 @ map (\<lambda>l. (path, l)) ls\<rparr>))
                       else Inr w3) of
                   Inl e \<Rightarrow> Inl e
                 | Inr w4 \<Rightarrow>
                     if save_json \<and> save_dir_exists cfg then
                       (case save_one_json (xyxy2xywh ext) (tensors w4 ! pred) path (class_map cfg) of
                          Inl e \<Rightarrow> Inl e
                        | Inr js \<Rightarrow>
                            Inr (w4\<lparr>evaluator := (evaluator w4)\<lparr>jdict := jdict (evaluator w4) @ js\<rparr>\<rparr>))
                     else Inr w4)"

section \<open>Concrete inputs\<close>

text \<open>One ground-truth box of class 0 and two detections of class 0 in the order
  non-max suppression returns them (by confidence, descending): the first overlaps
  the ground truth with IoU 0.62, the second with IoU 0.9.\<close>

definition ex_label :: label where
  "ex_label = \<lparr>l_cls = 0, l_box = (0, 0, 10, 10)\<rparr>"

definition ex_det_low :: detection where
  "ex_det_low = \<lparr>d_box = (0, 0, 10, 62 / 10), d_conf = 9 / 10, d_cls = 0, d_coef = []\<rparr>"

definition ex_det_high :: detection where
  "ex_det_high = \<lparr>d_box = (0, 0, 10, 9), d_conf = 8 / 10, d_cls = 0, d_coef = []\<rparr>"

definition ex_overlap :: "nat \<Rightarrow> nat \<Rightarrow> real" where
  "ex_overlap i j =
     box_iou_spec (l_box ([ex_label] ! i)) (d_box ([ex_det_low, ex_det_high] ! j))"

text \<open>Stand-ins for the collaborators on concrete inputs: the overlap of boxes as
  the glossary defines it, the usual conversions between corner and centre form of
  a box, and no mask head.\<close>

definition ex_ext :: "(unit, unit, unit) externals" where
  "ex_ext =
     \<lparr>box_iou = box_iou_spec,
      xywh2xyxy = (\<lambda>b. case b of (x, y, w, h) \<Rightarrow> (x - w / 2, y - h / 2, x + w / 2, y + h / 2)),
      xyxy2xywh = (\<lambda>b. case b of (x1, y1, x2, y2) \<Rightarrow> ((x1 + x2) / 2, (y1 + y2) / 2, x2 - x1, y2 - y1)),
      process_mask = (\<lambda>proto coef boxes shape. ()),
      process_mask_upsample = (\<lambda>proto coef boxes shape. ()),
      masks_shape = (\<lambda>gt. (0, 0)),
      interpolate = (\<lambda>gt pm. gt),
      mask_iou = (\<lambda>gt pm i j. 0),
      ap_per_class = (\<lambda>tp conf pcls tcls. ([], [], [], [], [])),
      ap_per_class_box_and_mask =
        (\<lambda>tpm tpb conf pcls tcls. (([], [], [], [], []), ([], [], [], [], [])))\<rparr>"

text \<open>A configuration with \<open>single_cls\<close> on, as \<open>__init__\<close> builds it for a dataset
  that is not COCO (\<open>class_map = list(range(1000))\<close>).\<close>

definition ex_cfg :: config where
  "ex_cfg =
     \<lparr>single_cls = True, plots = False, verbose = False, mask_head = False,
      mask_downsample_ratio = 1, nc = 1, names = [''object''], class_map = [0..<1000],
      save_dir_exists = True\<rparr>"

text \<open>A ground truth of image 0 whose box is \<open>(0, 0, 10, 10)\<close> in corner form, and a
  detection of class 3 that overlaps it with IoU 0.9.\<close>

definition ex_target :: target where
  "ex_target = \<lparr>t_img = 0, t_cls = 0, t_xywh = (5, 5, 10, 10)\<rparr>"

definition ex_det_cls3 :: detection where
  "ex_det_cls3 = \<lparr>d_box = (0, 0, 10, 9), d_conf = 8 / 10, d_cls = 3, d_coef = []\<rparr>"

text \<open>A metric after an update with two classes, 0 and 2, and two thresholds.\<close>

definition ex_metric :: metric where
  "ex_metric = \<lparr>mt_p = [1, 1 / 2], mt_r = [1, 1 / 4], mt_f1 = [1, 1 / 3],
     all_ap = [[1, 1 / 2], [1 / 5, 2 / 5]], ap_class_index = [0, 2]\<rparr>"

text \<open>An evaluator after two images with one record that has no true positive.\<close>

definition ex_stat :: stat where
  "ex_stat = \<lparr>s_masks = [], s_boxes = [[False, False, False, False, False, False, False, False, False, False]],
     s_conf = [9 / 10], s_pcls = [0], s_tcls = [0]\<rparr>"

definition ex_seen :: "unit evaluator" where
  "ex_seen = (evaluator_init ex_cfg)\<lparr>seen := 2, stats := [ex_stat], dt := (1, 2, 3)\<rparr>"

text \<open>The state before and after the loop body of \<open>run\<close> on one image whose
  prediction tensor holds the detection of class 3, with \<open>save_txt\<close>, \<open>save_conf\<close>
  and \<open>save_json\<close> on.\<close>

definition ex_world :: "unit world" where
  "ex_world = \<lparr>tensors = [[ex_det_cls3]], evaluator = evaluator_init ex_cfg, files = []\<rparr>"

definition ex_world_after :: "unit world" where
  "ex_world_after =
     \<lparr>tensors = [[ex_det_cls3], [ex_det_cls3\<lparr>d_cls := 0\<rparr>]],
      evaluator = (evaluator_init ex_cfg)
        \<lparr>seen := 1,
         stats := [\<lparr>s_masks = [],
                    s_boxes = [[True, True, True, True, True, True, True, True, True, False]],
                    s_conf = [8 / 10], s_pcls = [0], s_tcls = [0]\<rparr>],
         jdict := [\<lparr>image_id = Inr 42, category_id = 3, bbox = [0, 0, 10, 9], score = 8 / 10\<rparr>]\<rparr>,
      files = [(''000042'', (3, (1 / 2, 9 / 40, 1, 9 / 20), Some (8 / 10)))]\<rparr>"

section \<open>Properties of the numpy primitives\<close>


lemma first_index_less: "v \<in> set ks \<Longrightarrow> first_index ks v < length ks"
  by (induction ks) auto

lemma nth_first_index: "v \<in> set ks \<Longrightarrow> ks ! first_index ks v = v"
  by (induction ks) auto

lemma first_index_le: "k < length ks \<Longrightarrow> ks ! k = v \<Longrightarrow> first_index ks v \<le> k"
proof (induction ks arbitrary: k)
  case Nil
  then show ?case by simp
next
  case (Cons x xs)
  then show ?case by (cases k) auto
qed

lemma unique_index_in_range: "i \<in> set (unique_index ks) \<Longrightarrow> i < length ks"
  by (auto simp: unique_index_def first_index_less)

lemma distinct_unique_index: "distinct (unique_index ks)"
proof -
  have "inj_on (first_index ks) (set ks)"
    by (rule inj_onI) (metis nth_first_index)
  then show ?thesis
    by (simp add: unique_index_def distinct_map)
qed

lemma map_take_rows_unique:
  "map f (take_rows ms (unique_index (map f ms))) = sort (remdups (map f ms))"
proof -
  have "map (\<lambda>v. f (ms ! first_index (map f ms) v)) vs = vs" if "set vs \<subseteq> set (map f ms)" for vs
  proof (rule map_idI)
    fix v assume "v \<in> set vs"
    with that have v: "v \<in> set (map f ms)" by auto
    then have "first_index (map f ms) v < length ms"
      using first_index_less [of v "map f ms"] by simp
    then have "f (ms ! first_index (map f ms) v) = map f ms ! first_index (map f ms) v"
      by simp
    then show "f (ms ! first_index (map f ms) v) = v"
      using nth_first_index [OF v] by simp
  qed
  then show ?thesis
    by (simp add: take_rows_def unique_index_def o_def)
qed

lemma set_take_rows_unique: "set (take_rows ms (unique_index (map f ms))) \<subseteq> set ms"
  using unique_index_in_range [of _ "map f ms"] by (auto simp: take_rows_def)

lemma distinct_take_rows:
  assumes "distinct (map g ms)" "distinct idx" "\<forall>i\<in>set idx. i < length ms"
  shows "distinct (map g (take_rows ms idx))"
proof -
  have "inj_on (\<lambda>i. g (ms ! i)) (set idx)"
  proof (rule inj_onI)
    fix i j assume "i \<in> set idx" "j \<in> set idx" "g (ms ! i) = g (ms ! j)"
    with assms(3) have "i < length (map g ms)" "j < length (map g ms)" "map g ms ! i = map g ms ! j"
      by auto
    with assms(1) show "i = j" using nth_eq_iff_index_eq by blast
  qed
  with assms(2) show ?thesis
    by (simp add: take_rows_def distinct_map o_def)
qed

lemma distinct_det_unique_det: "distinct (map m_det (unique_det ms))"
  by (simp add: unique_det_def map_take_rows_unique)

lemma sorted_det_unique_det: "sorted (map m_det (unique_det ms))"
  by (simp add: unique_det_def map_take_rows_unique)

lemma distinct_label_unique_label: "distinct (map m_label (unique_label ms))"
  by (simp add: unique_label_def map_take_rows_unique)

lemma distinct_det_unique_label:
  "distinct (map m_det ms) \<Longrightarrow> distinct (map m_det (unique_label ms))"
  unfolding unique_label_def
  by (rule distinct_take_rows) (auto simp: distinct_unique_index unique_index_in_range dest: unique_index_in_range)

lemma dedup_distinct:
  "distinct (map m_det (dedup ms)) \<and> distinct (map m_label (dedup ms))"
  by (simp add: dedup_def distinct_label_unique_label distinct_det_unique_label distinct_det_unique_det)


section \<open>The matcher assigns every detection and every label at most once\<close>

text \<open>Claim C2. Whatever the overlap matrix, the detections, the labels and the
  gate \<open>t0\<close>, no detection index and no label index occurs twice among the rows of
  \<open>matches\<close> that are written into \<open>correct\<close>: each detection is matched to at most
  one label and each label to at most one detection. \<open>surviving\<close> is that value of
  \<open>matches\<close>, in \<open>process_batch\<close> and in \<open>process_batch_masks\<close>.\<close>

theorem surviving_exactly_once:
  "distinct (map m_det (surviving iou detections labels t0)) \<and>
   distinct (map m_label (surviving iou detections labels t0))"
proof (cases "1 < length (candidates iou detections labels t0)")
  case True
  then show ?thesis by (simp add: surviving_def dedup_distinct)
next
  case False
  then have "length (candidates iou detections labels t0) \<le> 1" by simp
  then have "distinct (map f (candidates iou detections labels t0))" for f :: "match \<Rightarrow> nat"
    by (cases "candidates iou detections labels t0") auto
  with False show ?thesis by (simp add: surviving_def)
qed



text \<open>On the concrete input both candidate rows name label 0; one survives.\<close>

theorem surviving_exactly_once_witness:
  "surviving ex_overlap [ex_det_low, ex_det_high] [ex_label] (1 / 2) = [(0, 0, 62 / 100)] \<and>
   distinct (map m_det (surviving ex_overlap [ex_det_low, ex_det_high] [ex_label] (1 / 2))) \<and>
   distinct (map m_label (surviving ex_overlap [ex_det_low, ex_det_high] [ex_label] (1 / 2)))"
proof -
  have "surviving ex_overlap [ex_det_low, ex_det_high] [ex_label] (1 / 2) = [(0, 0, 62 / 100)]"
    by code_simp
  then show ?thesis
    using surviving_exactly_once [of ex_overlap "[ex_det_low, ex_det_high]" "[ex_label]" "1 / 2"]
    by simp
qed

section \<open>Rows of the correctness matrix are monotone in the threshold\<close>
lemma length_assign_rows: "length (assign_rows correct ms iouv) = length correct"
  by (induction ms arbitrary: correct) auto

lemma assign_rows_rows:
  assumes "\<And>r. r \<in> set correct \<Longrightarrow> P r" "\<And>v. P (map (\<lambda>t. t \<le> v) iouv)"
  shows "r \<in> set (assign_rows correct ms iouv) \<Longrightarrow> P r"
  using assms(1)
proof (induction ms arbitrary: correct)
  case Nil
  then show ?case by simp
next
  case (Cons m ms)
  show ?case
  proof (rule Cons.IH)
    show "r \<in> set (assign_rows (correct[m_det m := map (\<lambda>t. t \<le> m_iou m) iouv]) ms iouv)"
      using Cons.prems(1) by simp
  next
    fix q assume "q \<in> set (correct[m_det m := map (\<lambda>t. t \<le> m_iou m) iouv])"
    then have "q \<in> insert (map (\<lambda>t. t \<le> m_iou m) iouv) (set correct)"
      using set_update_subset_insert by fastforce
    then show "P q" using Cons.prems(2) assms(2) by auto
  qed
qed

lemma threshold_row_mono:
  assumes "sorted iouv" "t1 \<le> t2" "t2 < length iouv" "map (\<lambda>t. t \<le> v) iouv ! t2"
  shows "map (\<lambda>t. t \<le> (v::real)) iouv ! t1"
proof -
  have "iouv ! t1 \<le> iouv ! t2" using assms(1-3) by (simp add: sorted_nth_mono)
  with assms show ?thesis by simp
qed


text \<open>Claim C3. For an ascending threshold vector, in every row of the matrix
  \<open>process_batch\<close> returns, an entry that is true at a threshold index is true at
  every lower index: a matched row is the comparison of one IoU with each
  threshold, and an unmatched row is all false.\<close>

theorem process_batch_rows_monotone:
  assumes "sorted iouv"
    and "process_batch iou_fn detections labels iouv = Inr correct"
    and "i < length correct" and "t1 \<le> t2" and "t2 < length iouv" and "correct ! i ! t2"
  shows "correct ! i ! t1"
proof -
  let ?P = "\<lambda>r. length r = length iouv \<and> (r ! t2 \<longrightarrow> r ! t1)"
  obtain t0 ts where iouv: "iouv = t0 # ts"
    using assms(2) by (cases iouv) (auto simp: process_batch_def match_correct_def)
  let ?ov = "\<lambda>i j. iou_fn (l_box (labels ! i)) (d_box (detections ! j))"
  have correct: "correct = assign_rows (zeros (length detections) (length iouv))
      (surviving ?ov detections labels t0) iouv"
    using assms(2) by (simp add: process_batch_def match_correct_def iouv)
  have "?P (correct ! i)"
  proof (rule assign_rows_rows [where P = ?P and correct = "zeros (length detections) (length iouv)"
        and ms = "surviving ?ov detections labels t0" and iouv = iouv])
    show "?P r" if "r \<in> set (zeros (length detections) (length iouv))" for r
      using that assms(4,5) by (auto simp: zeros_def)
    show "?P (map (\<lambda>t. t \<le> v) iouv)" for v
      using threshold_row_mono [OF assms(1) assms(4) assms(5)] by simp
    show "correct ! i \<in> set (assign_rows (zeros (length detections) (length iouv))
        (surviving ?ov detections labels t0) iouv)"
      using assms(3) correct by (metis nth_mem)
  qed
  with assms(6) show ?thesis by simp
qed


theorem process_batch_rows_monotone_witness:
  "sorted self_iouv \<and>
   process_batch box_iou_spec [ex_det_low, ex_det_high] [ex_label] self_iouv =
     Inr [[True, True, True, False, False, False, False, False, False, False],
          [False, False, False, False, False, False, False, False, False, False]] \<and>
   (0::nat) < 2 \<and> (2::nat) < length self_iouv \<and>
   [[True, True, True, False, False, False, False, False, False, False],
    [False, False, False, False, False, False, False, False, False, False]] ! 0 ! 2 \<and>
   [[True, True, True, False, False, False, False, False, False, False],
    [False, False, False, False, False, False, False, False, False, False]] ! 0 ! 0"
proof -
  let ?M = "[[True, True, True, False, False, False, False, False, False, False],
             [False, False, False, False, False, False, False, False, False, False]]"
  have s: "sorted self_iouv" by code_simp
  have r: "process_batch box_iou_spec [ex_det_low, ex_det_high] [ex_label] self_iouv = Inr ?M"
    by code_simp
  have n: "(2::nat) < length self_iouv" by code_simp
  have "?M ! 0 ! 0"
    by (rule process_batch_rows_monotone [OF s r, of 0 0 2]) (use n in simp_all)
  with s r n show ?thesis by simp
qed

section \<open>Which detection a label keeps\<close>
lemma unique_label_lowest:
  assumes "sorted (map m_det ms)" "m \<in> set (unique_label ms)" "m' \<in> set ms" "m_label m' = m_label m"
  shows "m_det m \<le> m_det m'"
proof -
  let ?ks = "map m_label ms"
  from assms(2) obtain v where v: "v \<in> set ?ks" and m: "m = ms ! first_index ?ks v"
    by (auto simp: unique_label_def take_rows_def unique_index_def)
  have fi: "first_index ?ks v < length ms"
    using first_index_less [OF v] by simp
  have "m_label m = v"
    using nth_first_index [OF v] fi m by simp
  from assms(3) obtain k where k: "k < length ms" "ms ! k = m'"
    by (auto simp: in_set_conv_nth)
  then have "?ks ! k = v" using assms(4) \<open>m_label m = v\<close> by simp
  then have "first_index ?ks v \<le> k" using first_index_le [of k ?ks v] k by simp
  moreover have "k < length (map m_det ms)" using k by simp
  ultimately have "map m_det ms ! first_index ?ks v \<le> map m_det ms ! k"
    using assms(1) by (rule sorted_nth_mono [rotated])
  then show ?thesis using m k fi by simp
qed

lemma lowest_index_kept:
  assumes "1 < length (candidates iou detections labels t0)"
  shows "set (surviving iou detections labels t0)
           \<subseteq> set (unique_det (sort_by_iou (candidates iou detections labels t0))) \<and>
         m_label ` set (surviving iou detections labels t0)
           = m_label ` set (unique_det (sort_by_iou (candidates iou detections labels t0))) \<and>
         (\<forall>m\<in>set (surviving iou detections labels t0).
            \<forall>m'\<in>set (unique_det (sort_by_iou (candidates iou detections labels t0))).
              m_label m' = m_label m \<longrightarrow> m_det m \<le> m_det m')"
proof -
  let ?dd = "unique_det (sort_by_iou (candidates iou detections labels t0))"
  have s: "surviving iou detections labels t0 = unique_label ?dd"
    using assms by (simp add: surviving_def dedup_def)
  have a: "set (unique_label ?dd) \<subseteq> set ?dd"
    unfolding unique_label_def by (rule set_take_rows_unique)
  have "set (map m_label (unique_label ?dd)) = set (map m_label ?dd)"
    unfolding unique_label_def by (simp only: map_take_rows_unique set_sort set_remdups)
  then have b: "m_label ` set (unique_label ?dd) = m_label ` set ?dd" by simp
  have c: "m_det m \<le> m_det m'"
    if "m \<in> set (unique_label ?dd)" "m' \<in> set ?dd" "m_label m' = m_label m" for m m'
    using unique_label_lowest [OF sorted_det_unique_det that] .
  from a b c show ?thesis unfolding s by blast
qed

lemma two_detections:
  assumes "l_cls l = d_cls a" "l_cls l = d_cls b" "t0 \<le> iou_fn (l_box l) (d_box a)"
    "t0 \<le> iou_fn (l_box l) (d_box b)"
  shows "process_batch iou_fn [a, b] [l] (t0 # ts) =
     Inr [map (\<lambda>t. t \<le> iou_fn (l_box l) (d_box a)) (t0 # ts), replicate (Suc (length ts)) False]"
  using assms
  by (simp add: process_batch_def match_correct_def surviving_def candidates_def dedup_def
      sort_by_iou_def unique_det_def unique_label_def take_rows_def unique_index_def argsort_def
      zeros_def m_det_def m_iou_def m_label_def upt_rec [of 0] upt_rec [of 1] numeral_2_eq_2)


text \<open>Claim C1, as the code has it. When there is more than one candidate pair, the
  rows written into \<open>correct\<close> are rows of the detection-deduplicated candidates,
  every label of those has exactly its rows' label among them, and the row kept for
  a label is the one with the lowest detection index among the
  detection-deduplicated candidates of that label, not the one with the highest
  IoU: \<open>np.unique\<close> returns the deduplicated rows ordered by detection index and the
  second sort by IoU is commented out. In particular, when two detections of the
  label's class both overlap the only ground truth at or above \<open>iouv[0]\<close>, the
  first detection is the one marked correct, at the thresholds its own IoU reaches,
  and the second stays all false, whatever the two IoUs are.\<close>

theorem process_batch_keeps_lowest_index:
  "(1 < length (candidates iou detections labels t0) \<longrightarrow>
      set (surviving iou detections labels t0)
        \<subseteq> set (unique_det (sort_by_iou (candidates iou detections labels t0))) \<and>
      m_label ` set (surviving iou detections labels t0)
        = m_label ` set (unique_det (sort_by_iou (candidates iou detections labels t0))) \<and>
      (\<forall>m\<in>set (surviving iou detections labels t0).
         \<forall>m'\<in>set (unique_det (sort_by_iou (candidates iou detections labels t0))).
           m_label m' = m_label m \<longrightarrow> m_det m \<le> m_det m')) \<and>
   (l_cls l = d_cls a \<and> l_cls l = d_cls b \<and>
    t0 \<le> iou_fn (l_box l) (d_box a) \<and> t0 \<le> iou_fn (l_box l) (d_box b) \<longrightarrow>
      process_batch iou_fn [a, b] [l] (t0 # ts) =
        Inr [map (\<lambda>t. t \<le> iou_fn (l_box l) (d_box a)) (t0 # ts),
             replicate (Suc (length ts)) False])"
  using lowest_index_kept [of iou detections labels t0] two_detections [of l a b t0 iou_fn ts]
  by blast

text \<open>The two detections of the concrete input: the first has the lower IoU and is
  the one kept.\<close>

theorem process_batch_keeps_lowest_index_witness:
  "1 < length (candidates ex_overlap [ex_det_low, ex_det_high] [ex_label] (1 / 2)) \<and>
   (0, 0, 62 / 100) \<in> set (surviving ex_overlap [ex_det_low, ex_det_high] [ex_label] (1 / 2)) \<and>
   (0, 1, 9 / 10)
     \<in> set (unique_det (sort_by_iou
          (candidates ex_overlap [ex_det_low, ex_det_high] [ex_label] (1 / 2)))) \<and>
   m_det (0, 0, 62 / 100) \<le> m_det (0, 1, 9 / 10) \<and>
   l_cls ex_label = d_cls ex_det_low \<and> l_cls ex_label = d_cls ex_det_high \<and>
   1 / 2 \<le> box_iou_spec (l_box ex_label) (d_box ex_det_low) \<and>
   1 / 2 \<le> box_iou_spec (l_box ex_label) (d_box ex_det_high) \<and>
   process_batch box_iou_spec [ex_det_low, ex_det_high] [ex_label] [1 / 2, 3 / 4] =
     Inr [[True, False], [False, False]]"
proof -
  let ?c = "candidates ex_overlap [ex_det_low, ex_det_high] [ex_label] (1 / 2)"
  have n: "1 < length ?c" by code_simp
  have a: "(0, 0, 62 / 100) \<in> set (surviving ex_overlap [ex_det_low, ex_det_high] [ex_label] (1 / 2))"
    by code_simp
  have b: "(0, 1, 9 / 10) \<in> set (unique_det (sort_by_iou ?c))" by code_simp
  have l: "m_label (0, 1, 9 / 10 :: real) = m_label (0, 0, 62 / 100 :: real)"
    by (simp add: m_label_def)
  have h: "l_cls ex_label = d_cls ex_det_low" "l_cls ex_label = d_cls ex_det_high"
    "1 / 2 \<le> box_iou_spec (l_box ex_label) (d_box ex_det_low)"
    "1 / 2 \<le> box_iou_spec (l_box ex_label) (d_box ex_det_high)"
    by code_simp+
  have v: "map (\<lambda>t. t \<le> box_iou_spec (l_box ex_label) (d_box ex_det_low)) [1 / 2, 3 / 4]
      = [True, False]"
    by code_simp
  note t = process_batch_keeps_lowest_index [of ex_overlap "[ex_det_low, ex_det_high]"
      "[ex_label]" "1 / 2" ex_label ex_det_low ex_det_high box_iou_spec "[3 / 4]"]
  from t n a b l have "m_det (0, 0, 62 / 100 :: real) \<le> m_det (0, 1, 9 / 10 :: real)"
    by blast
  moreover from t h v
  have "process_batch box_iou_spec [ex_det_low, ex_det_high] [ex_label] [1 / 2, 3 / 4]
      = Inr [[True, False], [False, False]]"
    by simp
  ultimately show ?thesis using n a b h by simp
qed

text \<open>Claim C1 as stated fails on two detections of one ground truth: the
  detection-deduplicated candidates are both rows, of IoU 0.62 and 0.9; the row
  that survives for the label is the first, of IoU 0.62, and the detection with
  the highest IoU is left all false.\<close>

theorem process_batch_highest_iou_counterexample:
  "box_iou_spec (l_box ex_label) (d_box ex_det_low) = 62 / 100 \<and>
   box_iou_spec (l_box ex_label) (d_box ex_det_high) = 9 / 10 \<and>
   unique_det (sort_by_iou (candidates ex_overlap [ex_det_low, ex_det_high] [ex_label] (1 / 2)))
     = [(0, 0, 62 / 100), (0, 1, 9 / 10)] \<and>
   surviving ex_overlap [ex_det_low, ex_det_high] [ex_label] (1 / 2) = [(0, 0, 62 / 100)] \<and>
   process_batch box_iou_spec [ex_det_low, ex_det_high] [ex_label] self_iouv =
     Inr [[True, True, True, False, False, False, False, False, False, False],
          [False, False, False, False, False, False, False, False, False, False]]"
  by code_simp

section \<open>The contract of \<open>process_batch_masks\<close>\<close>

lemma zeros_0: "zeros 0 k = []" by (simp add: zeros_def)

text \<open>Claim C5. \<open>process_batch_masks\<close> enforces the both-or-neither contract: when
  exactly one of the prototype output and the ground-truth masks is \<open>None\<close> the
  assertion fails and nothing is returned; when both are \<open>None\<close> it returns a
  correctness matrix with zero rows together with \<open>None\<close> for the predicted masks;
  and whenever it returns, the two inputs were both \<open>None\<close> or both present, the
  predicted masks being \<open>None\<close> exactly in the first case.\<close>

theorem process_batch_masks_both_or_neither:
  "((proto_out = None) \<noteq> (gt_masksi = None) \<longrightarrow>
      process_batch_masks ext cfg predn proto_out gt_masksi labels = Inl AssertionError) \<and>
   (proto_out = None \<and> gt_masksi = None \<longrightarrow>
      process_batch_masks ext cfg predn proto_out gt_masksi labels = Inr ([], None)) \<and>
   (\<forall>correct pm. process_batch_masks ext cfg predn proto_out gt_masksi labels = Inr (correct, pm) \<longrightarrow>
      (proto_out = None) = (gt_masksi = None) \<and> (pm = None) = (proto_out = None))"
  by (cases proto_out; cases gt_masksi)
     (auto simp: process_batch_masks_def zeros_0 Let_def split: sum.splits)

theorem process_batch_masks_both_or_neither_witness:
  "(Some () = None) \<noteq> ((None :: unit list option) = None) \<and>
   process_batch_masks ex_ext ex_cfg [ex_det_low] (Some ()) None [ex_label] = Inl AssertionError \<and>
   process_batch_masks ex_ext ex_cfg [ex_det_low] None None [ex_label] = Inr ([], None)"
  using process_batch_masks_both_or_neither [of "Some ()" None ex_ext ex_cfg "[ex_det_low]" "[ex_label]"]
    process_batch_masks_both_or_neither [of None None ex_ext ex_cfg "[ex_det_low]" "[ex_label]"]
  by simp

section \<open>\<open>compute_stat\<close> on an image without detections or without labels\<close>

lemma self_niou_10: "self_niou = 10" by (simp add: self_niou_def self_iouv_def)

lemma select_masks_ok:
  "\<forall>gm. gt_masks = Some gm \<longrightarrow> length gm = length targets \<Longrightarrow>
   \<exists>masksi. select_masks si targets gt_masks = Inr masksi"
  by (cases gt_masks) (auto simp: select_masks_def)

lemma select_proto_ok:
  "\<forall>ps. train_out = Some ps \<longrightarrow> si < length ps \<Longrightarrow>
   \<exists>proto_out. select_proto si train_out = Inr proto_out"
  by (cases train_out) (auto simp: select_proto_def)

text \<open>Claim C4. For every image whose mask and prototype tensors have the shapes the
  indexing needs: if the detection set is empty, \<open>compute_stat\<close> records nothing
  when the image has no label either, and otherwise one record whose correctness
  matrices have zero rows, however many labels there are; if the label set is empty
  and detections exist, it records one record whose box-correctness matrix is all
  false with one row per detection and 10 columns.\<close>

theorem compute_stat_degenerate:
  assumes "\<forall>gm. gt_masks = Some gm \<longrightarrow> length gm = length targets"
    and "\<forall>ps. train_out = Some ps \<longrightarrow> si < length ps"
  shows "(predn = [] \<longrightarrow>
           compute_stat ext cfg si predn targets gt_masks train_out self =
             Inr ([], if filter (\<lambda>t. t_img t = si) targets = [] then self
                      else self\<lparr>stats := stats self @
                        [\<lparr>s_masks = [], s_boxes = [], s_conf = [], s_pcls = [],
                          s_tcls = map t_cls (filter (\<lambda>t. t_img t = si) targets)\<rparr>]\<rparr>)) \<and>
         (predn \<noteq> [] \<and> filter (\<lambda>t. t_img t = si) targets = [] \<longrightarrow>
           compute_stat ext cfg si predn targets gt_masks train_out self =
             Inr (if single_cls cfg then coerce_cls predn else predn,
                  self\<lparr>stats := stats self @
                    [\<lparr>s_masks = replicate (length predn) (replicate 10 False),
                      s_boxes = replicate (length predn) (replicate 10 False),
                      s_conf = map d_conf predn,
                      s_pcls = map d_cls (if single_cls cfg then coerce_cls predn else predn),
                      s_tcls = []\<rparr>]\<rparr>))"
proof -
  obtain masksi where m: "select_masks si targets gt_masks = Inr masksi"
    using select_masks_ok [OF assms(1)] by blast
  obtain proto_out where p: "select_proto si train_out = Inr proto_out"
    using select_proto_ok [OF assms(2)] by blast
  show ?thesis
    by (simp add: compute_stat_def m p zeros_def self_niou_10 coerce_cls_def o_def)
qed

theorem compute_stat_degenerate_witness:
  "compute_stat ex_ext ex_cfg 0 [] [ex_target] None None (evaluator_init ex_cfg :: unit evaluator) =
     Inr ([], (evaluator_init ex_cfg)\<lparr>stats :=
       [\<lparr>s_masks = [], s_boxes = [], s_conf = [], s_pcls = [], s_tcls = [0]\<rparr>]\<rparr>) \<and>
   compute_stat ex_ext ex_cfg 1 [ex_det_low] [ex_target] None None
       (evaluator_init ex_cfg :: unit evaluator) =
     Inr ([ex_det_low], (evaluator_init ex_cfg)\<lparr>stats :=
       [\<lparr>s_masks = [[False, False, False, False, False, False, False, False, False, False]],
         s_boxes = [[False, False, False, False, False, False, False, False, False, False]],
         s_conf = [9 / 10], s_pcls = [0], s_tcls = []\<rparr>]\<rparr>)"
proof -
  have h: "\<forall>gm. (None :: unit list option) = Some gm \<longrightarrow> length gm = length [ex_target]"
    "\<forall>ps. (None :: unit list option) = Some ps \<longrightarrow> (0::nat) < length ps"
    "\<forall>ps. (None :: unit list option) = Some ps \<longrightarrow> (1::nat) < length ps"
    by simp_all
  have e: "stats (evaluator_init ex_cfg :: unit evaluator) = []"
    by (simp add: evaluator_init_def)
  have c: "(if single_cls ex_cfg then coerce_cls [ex_det_low] else [ex_det_low]) = [ex_det_low]"
    by (simp add: coerce_cls_def ex_det_low_def)
  have f: "filter (\<lambda>t. t_img t = 0) [ex_target] = [ex_target]"
    "filter (\<lambda>t. t_img t = 1) [ex_target] = []"
    "t_img ex_target = 0" "t_cls ex_target = 0" "d_conf ex_det_low = 9 / 10" "d_cls ex_det_low = 0"
    by (simp_all add: ex_target_def ex_det_low_def)
  from compute_stat_degenerate [OF h(1) h(2), of "[]" ex_ext ex_cfg "evaluator_init ex_cfg"]
    compute_stat_degenerate [OF h(1) h(3), of "[ex_det_low]" ex_ext ex_cfg "evaluator_init ex_cfg"]
  show ?thesis
    by (simp add: e c f numeral_eq_Suc)
qed

section \<open>\<open>single_cls\<close> coerces the predicted classes before matching\<close>

lemma process_batch_masks_single_cls:
  "process_batch_masks ext (cfg\<lparr>single_cls := b\<rparr>) predn proto_out gt_masksi labels =
   process_batch_masks ext cfg predn proto_out gt_masksi labels"
proof -
  have p: "plots (cfg\<lparr>single_cls := b\<rparr>) = plots cfg"
    and r: "mask_downsample_ratio (cfg\<lparr>single_cls := b\<rparr>) = mask_downsample_ratio cfg"
    by simp_all
  show ?thesis unfolding process_batch_masks_def p r ..
qed

lemma coerce_cls_eq_Nil: "(coerce_cls predn = []) = (predn = [])"
  by (simp add: coerce_cls_def)

text \<open>Claim C9. With \<open>single_cls\<close> configured and at least one detection,
  \<open>compute_stat\<close> does exactly what it does without \<open>single_cls\<close> on the detections
  whose class ids have all been set to 0: the box matcher and the mask matcher run
  on the coerced detections. Every class id of those is 0, so the class-match
  condition of the candidates compares the label's class with 0 for every
  detection.\<close>

theorem compute_stat_single_cls:
  assumes "single_cls cfg" and "predn \<noteq> []"
  shows "compute_stat ext cfg si predn targets gt_masks train_out self =
           compute_stat ext (cfg\<lparr>single_cls := False\<rparr>) si (coerce_cls predn) targets gt_masks
             train_out self \<and>
         list_all (\<lambda>d. d_cls d = 0) (coerce_cls predn) \<and>
         candidates iou (coerce_cls predn) labels t0 =
           [(i, j, iou i j). i \<leftarrow> [0..<length labels], j \<leftarrow> [0..<length predn],
              t0 \<le> iou i j \<and> l_cls (labels ! i) = 0]"
proof -
  have a: "compute_stat ext cfg si predn targets gt_masks train_out self =
           compute_stat ext (cfg\<lparr>single_cls := False\<rparr>) si (coerce_cls predn) targets gt_masks
             train_out self"
  proof -
    have s: "single_cls (cfg\<lparr>single_cls := False\<rparr>) = False"
      and p: "plots (cfg\<lparr>single_cls := False\<rparr>) = plots cfg"
      by simp_all
    have n: "(length (coerce_cls predn) = 0) = (length predn = 0)"
      by (simp add: coerce_cls_def)
    show ?thesis
      unfolding compute_stat_def s p n process_batch_masks_single_cls
      using assms by (simp add: Let_def cong: sum.case_cong)
  qed
  have b: "list_all (\<lambda>d. d_cls d = 0) (coerce_cls predn)"
    by (simp add: coerce_cls_def list_all_iff)
  have c: "candidates iou (coerce_cls predn) labels t0 =
           [(i, j, iou i j). i \<leftarrow> [0..<length labels], j \<leftarrow> [0..<length predn],
              t0 \<le> iou i j \<and> l_cls (labels ! i) = 0]"
    unfolding candidates_def coerce_cls_def
    by (rule arg_cong [where f = concat], rule map_cong, simp, rule arg_cong [where f = concat],
        rule map_cong) auto
  from a b c show ?thesis by blast
qed

text \<open>A detection of class 3 matches a ground truth of class 0 under \<open>single_cls\<close>.\<close>

theorem compute_stat_single_cls_witness:
  "single_cls ex_cfg \<and> [ex_det_cls3] \<noteq> [] \<and>
   compute_stat ex_ext (ex_cfg\<lparr>single_cls := False\<rparr>) 0 (coerce_cls [ex_det_cls3]) [ex_target]
       None None (evaluator_init ex_cfg :: unit evaluator) =
     Inr ([ex_det_cls3\<lparr>d_cls := 0\<rparr>], (evaluator_init ex_cfg)\<lparr>stats :=
       [\<lparr>s_masks = [],
         s_boxes = [[True, True, True, True, True, True, True, True, True, False]],
         s_conf = [8 / 10], s_pcls = [0], s_tcls = [0]\<rparr>]\<rparr>) \<and>
   compute_stat ex_ext ex_cfg 0 [ex_det_cls3] [ex_target] None None
       (evaluator_init ex_cfg :: unit evaluator) =
     Inr ([ex_det_cls3\<lparr>d_cls := 0\<rparr>], (evaluator_init ex_cfg)\<lparr>stats :=
       [\<lparr>s_masks = [],
         s_boxes = [[True, True, True, True, True, True, True, True, True, False]],
         s_conf = [8 / 10], s_pcls = [0], s_tcls = [0]\<rparr>]\<rparr>)"
proof -
  have s: "single_cls ex_cfg" by (simp add: ex_cfg_def)
  have p: "process_batch box_iou_spec [ex_det_cls3\<lparr>d_cls := 0\<rparr>]
      [\<lparr>l_cls = 0, l_box = (0, 0, 10, 10)\<rparr>] self_iouv =
      Inr [[True, True, True, True, True, True, True, True, True, False]]"
    by code_simp
  have e: "stats (evaluator_init cfg :: unit evaluator) = []" for cfg
    by (simp add: evaluator_init_def)
  have c: "d_conf ex_det_cls3 = 8 / 10" by (simp add: ex_det_cls3_def)
  have r: "compute_stat ex_ext (ex_cfg\<lparr>single_cls := False\<rparr>) 0 (coerce_cls [ex_det_cls3])
       [ex_target] None None (evaluator_init ex_cfg :: unit evaluator) =
     Inr ([ex_det_cls3\<lparr>d_cls := 0\<rparr>], (evaluator_init ex_cfg)\<lparr>stats :=
       [\<lparr>s_masks = [],
         s_boxes = [[True, True, True, True, True, True, True, True, True, False]],
         s_conf = [8 / 10], s_pcls = [0], s_tcls = [0]\<rparr>]\<rparr>)"
    by (simp add: compute_stat_def select_masks_def select_proto_def coerce_cls_def
        process_batch_masks_def zeros_def ex_target_def ex_ext_def ex_cfg_def p e c Let_def)
  from compute_stat_single_cls [OF s, of "[ex_det_cls3]" ex_ext 0 "[ex_target]" None None
      "evaluator_init ex_cfg"] r s
  show ?thesis by simp
qed

section \<open>\<open>get_maps\<close>\<close>

lemma get_maps_loop_ok:
  assumes "k + length cs \<le> length aps" "\<forall>c\<in>set cs. c < length maps"
  shows "\<exists>maps'. get_maps_loop aps (enumerate k cs) maps = Inr maps' \<and>
           length maps' = length maps \<and>
           (\<forall>c<length maps. c \<notin> set cs \<longrightarrow> maps' ! c = maps ! c) \<and>
           (\<forall>j<length cs. cs ! j \<notin> set (drop (Suc j) cs) \<longrightarrow> maps' ! (cs ! j) = aps ! (k + j))"
  using assms
proof (induction cs arbitrary: k maps)
  case Nil
  then show ?case by simp
next
  case (Cons c cs)
  let ?maps = "maps[c := aps ! k]"
  have "Suc k + length cs \<le> length aps" "\<forall>c\<in>set cs. c < length ?maps"
    using Cons.prems by auto
  from Cons.IH [OF this] obtain maps' where
    r: "get_maps_loop aps (enumerate (Suc k) cs) ?maps = Inr maps'"
    and l: "length maps' = length ?maps"
    and f: "\<forall>c'<length ?maps. c' \<notin> set cs \<longrightarrow> maps' ! c' = ?maps ! c'"
    and v: "\<forall>j<length cs. cs ! j \<notin> set (drop (Suc j) cs) \<longrightarrow> maps' ! (cs ! j) = aps ! (Suc k + j)"
    by blast
  have k: "k < length aps" "c < length maps" using Cons.prems by auto
  have "get_maps_loop aps (enumerate k (c # cs)) maps = Inr maps'"
    using r k by simp
  moreover have "length maps' = length maps" using l by simp
  moreover have "\<forall>c'<length maps. c' \<notin> set (c # cs) \<longrightarrow> maps' ! c' = maps ! c'"
    using f by auto
  moreover have "\<forall>j<length (c # cs). (c # cs) ! j \<notin> set (drop (Suc j) (c # cs))
      \<longrightarrow> maps' ! ((c # cs) ! j) = aps ! (k + j)"
  proof (intro allI impI)
    fix j assume j: "j < length (c # cs)" and n: "(c # cs) ! j \<notin> set (drop (Suc j) (c # cs))"
    show "maps' ! ((c # cs) ! j) = aps ! (k + j)"
    proof (cases j)
      case 0
      then have "c \<notin> set cs" using n by simp
      then have "maps' ! c = ?maps ! c" using f k by simp
      then show ?thesis using 0 k by simp
    next
      case (Suc j')
      then show ?thesis using v j n by simp
    qed
  qed
  ultimately show ?case by blast
qed

lemma ap_map_mean: "ap m = map mean (all_ap m)"
  by (simp add: ap_def)

text \<open>Claim C7. For a metric as \<open>update\<close> leaves it (no more class indices than rows
  of \<open>all_ap\<close>) and a class count \<open>n\<close> above every index of \<open>ap_class_index\<close>,
  \<open>get_maps n\<close> returns an array of length exactly \<open>n\<close>; the entry at a class of
  \<open>ap_class_index\<close> is the mean over the thresholds of that class's row of \<open>all_ap\<close>
  (of the last row, should a class occur twice), and every other entry is the global
  mean AP \<open>map\<close>.\<close>

theorem get_maps_entries:
  assumes "length (ap_class_index m) \<le> length (all_ap m)"
    and "\<forall>c\<in>set (ap_class_index m). c < n"
  shows "\<exists>maps. get_maps m n = Inr maps \<and> length maps = n \<and>
           (\<forall>i<length (ap_class_index m).
              ap_class_index m ! i \<notin> set (drop (Suc i) (ap_class_index m)) \<longrightarrow>
              maps ! (ap_class_index m ! i) = mean (all_ap m ! i)) \<and>
           (\<forall>c<n. c \<notin> set (ap_class_index m) \<longrightarrow> maps ! c = map_metric m)"
proof -
  have "0 + length (ap_class_index m) \<le> length (ap m)"
    "\<forall>c\<in>set (ap_class_index m). c < length (replicate n (map_metric m))"
    using assms by (simp_all add: ap_map_mean)
  from get_maps_loop_ok [OF this] obtain maps where
    "get_maps m n = Inr maps" "length maps = n"
    "\<forall>c<n. c \<notin> set (ap_class_index m) \<longrightarrow> maps ! c = map_metric m"
    "\<forall>j<length (ap_class_index m). ap_class_index m ! j \<notin> set (drop (Suc j) (ap_class_index m))
       \<longrightarrow> maps ! (ap_class_index m ! j) = ap m ! j"
    by (auto simp: get_maps_def)
  moreover have "ap m ! j = mean (all_ap m ! j)" if "j < length (ap_class_index m)" for j
    using that assms(1) by (simp add: ap_map_mean)
  ultimately show ?thesis by auto
qed

theorem get_maps_entries_witness:
  "length (ap_class_index ex_metric) \<le> length (all_ap ex_metric) \<and>
   get_maps ex_metric 4 = Inr [3 / 4, 21 / 40, 3 / 10, 21 / 40] \<and>
   mean (all_ap ex_metric ! 0) = 3 / 4 \<and> mean (all_ap ex_metric ! 1) = 3 / 10 \<and>
   map_metric ex_metric = 21 / 40"
proof -
  have a: "length (ap_class_index ex_metric) \<le> length (all_ap ex_metric)" by code_simp
  have b: "\<forall>c\<in>set (ap_class_index ex_metric). c < 4" by code_simp
  have c: "get_maps ex_metric 4 = Inr [3 / 4, 21 / 40, 3 / 10, 21 / 40]" by code_simp
  have d: "mean (all_ap ex_metric ! 0) = 3 / 4" "mean (all_ap ex_metric ! 1) = 3 / 10"
    "map_metric ex_metric = 21 / 40"
    by code_simp+
  from get_maps_entries [OF a b] c obtain maps where "get_maps ex_metric 4 = Inr maps" by blast
  with a c d show ?thesis by simp
qed

section \<open>The image loop of \<open>run\<close> leaves the prediction tensors as they were\<close>

lemma save_one_txt_cls:
  "save_one_txt f ds sc sh = Inr ls \<Longrightarrow> map fst ls = map d_cls ds"
  by (induction ds arbitrary: ls) (auto split: if_splits sum.splits prod.splits)

lemma save_one_json_category:
  "save_one_json f ds stem cmap = Inr js \<Longrightarrow> map category_id js = map (\<lambda>d. cmap ! d_cls d) ds"
  by (induction ds arbitrary: js) (auto split: if_splits sum.splits prod.splits)

lemma compute_stat_jdict:
  "compute_stat ext cfg si predn targets gt_masks train_out self = Inr (p, self') \<Longrightarrow>
   jdict self' = jdict self"
  unfolding compute_stat_def Let_def
  by (auto split: sum.splits if_splits prod.splits)

lemma run_image_frame:
  assumes "run_image ext cfg save_txt save_conf save_json si pred paths shapes targets masks
           train_out w = Inr w'" and "a < length (tensors w)"
  shows "tensors w' ! a = tensors w ! a"
  using assms unfolding run_image_def clone_def Let_def
  by (auto split: sum.splits if_splits prod.splits simp: nth_append)

lemma run_image_txt:
  assumes "run_image ext cfg save_txt save_conf save_json si pred paths shapes targets masks
           train_out w = Inr w'" and "pred < length (tensors w)"
    and "save_txt \<and> save_dir_exists cfg"
  shows "\<exists>ls. save_one_txt (xyxy2xywh ext) (tensors w ! pred) save_conf (shapes ! si) = Inr ls \<and>
              files w' = files w @ map (\<lambda>l. (paths ! si, l)) ls"
  using assms unfolding run_image_def clone_def Let_def
  by (auto split: sum.splits if_splits prod.splits simp: nth_append)

lemma run_image_json:
  assumes "run_image ext cfg save_txt save_conf save_json si pred paths shapes targets masks
           train_out w = Inr w'" and "pred < length (tensors w)"
    and "save_json \<and> save_dir_exists cfg"
  shows "\<exists>js. save_one_json (xyxy2xywh ext) (tensors w ! pred) (paths ! si) (class_map cfg)
                = Inr js \<and>
              jdict (evaluator w') = jdict (evaluator w) @ js"
  using assms unfolding run_image_def clone_def Let_def
  by (auto split: sum.splits if_splits prod.splits simp: nth_append dest!: compute_stat_jdict)

text \<open>Claim C10. \<open>compute_stat\<close> works on a clone of the image's prediction tensor:
  whenever the loop body of \<open>run\<close> returns, every tensor that existed before it,
  the image's own prediction tensor among them, has its contents unchanged, also
  under \<open>single_cls\<close>; the lines \<open>save_one_txt\<close> appends and the entries
  \<open>save_one_json\<close> appends are computed from the original tensor, so they carry its
  original class ids (through \<open>class_map\<close> for the JSON entries) and coordinates.\<close>

theorem run_image_keeps_original:
  assumes "pred < length (tensors w)"
    and "run_image ext cfg save_txt save_conf save_json si pred paths shapes targets masks
           train_out w = Inr w'"
  shows "(\<forall>a<length (tensors w). tensors w' ! a = tensors w ! a) \<and>
         (save_txt \<and> save_dir_exists cfg \<longrightarrow>
            (\<exists>ls. save_one_txt (xyxy2xywh ext) (tensors w ! pred) save_conf (shapes ! si) = Inr ls \<and>
                  files w' = files w @ map (\<lambda>l. (paths ! si, l)) ls \<and>
                  map fst ls = map d_cls (tensors w ! pred))) \<and>
         (save_json \<and> save_dir_exists cfg \<longrightarrow>
            (\<exists>js. save_one_json (xyxy2xywh ext) (tensors w ! pred) (paths ! si) (class_map cfg)
                     = Inr js \<and>
                  jdict (evaluator w') = jdict (evaluator w) @ js \<and>
                  map category_id js = map (\<lambda>d. class_map cfg ! d_cls d) (tensors w ! pred)))"
proof (intro conjI allI impI)
  fix a assume "a < length (tensors w)"
  then show "tensors w' ! a = tensors w ! a" by (rule run_image_frame [OF assms(2)])
next
  assume "save_txt \<and> save_dir_exists cfg"
  from run_image_txt [OF assms(2,1) this] obtain ls where
    ls: "save_one_txt (xyxy2xywh ext) (tensors w ! pred) save_conf (shapes ! si) = Inr ls"
    "files w' = files w @ map (\<lambda>l. (paths ! si, l)) ls"
    by blast
  with save_one_txt_cls [OF ls(1)]
  show "\<exists>ls. save_one_txt (xyxy2xywh ext) (tensors w ! pred) save_conf (shapes ! si) = Inr ls \<and>
            files w' = files w @ map (\<lambda>l. (paths ! si, l)) ls \<and>
            map fst ls = map d_cls (tensors w ! pred)"
    by blast
next
  assume "save_json \<and> save_dir_exists cfg"
  from run_image_json [OF assms(2,1) this] obtain js where
    js: "save_one_json (xyxy2xywh ext) (tensors w ! pred) (paths ! si) (class_map cfg) = Inr js"
    "jdict (evaluator w') = jdict (evaluator w) @ js"
    by blast
  with save_one_json_category [OF js(1)]
  show "\<exists>js. save_one_json (xyxy2xywh ext) (tensors w ! pred) (paths ! si) (class_map cfg)
               = Inr js \<and>
            jdict (evaluator w') = jdict (evaluator w) @ js \<and>
            map category_id js = map (\<lambda>d. class_map cfg ! d_cls d) (tensors w ! pred)"
    by blast
qed

lemma ex_compute_stat:
  "compute_stat ex_ext ex_cfg 0 [ex_det_cls3] [ex_target] None None self =
     Inr ([ex_det_cls3\<lparr>d_cls := 0\<rparr>], self\<lparr>stats := stats self @
       [\<lparr>s_masks = [],
         s_boxes = [[True, True, True, True, True, True, True, True, True, False]],
         s_conf = [8 / 10], s_pcls = [0], s_tcls = [0]\<rparr>]\<rparr>)"
proof -
  have p: "process_batch box_iou_spec [ex_det_cls3\<lparr>d_cls := 0\<rparr>]
      [\<lparr>l_cls = 0, l_box = (0, 0, 10, 10)\<rparr>] self_iouv =
      Inr [[True, True, True, True, True, True, True, True, True, False]]"
    by code_simp
  have c: "d_conf ex_det_cls3 = 8 / 10" by (simp add: ex_det_cls3_def)
  show ?thesis
    by (simp add: compute_stat_def select_masks_def select_proto_def coerce_cls_def
        process_batch_masks_def zeros_def ex_target_def ex_ext_def ex_cfg_def p c Let_def)
qed

lemma ex_run_image:
  "run_image ex_ext ex_cfg True True True 0 0 [''000042''] [(20, 10)] [ex_target] None None
     ex_world = Inr ex_world_after"
proof -
  have s1: "stem_id ''000042'' = Inr 42" by code_simp
  have s2: "py_round (4 / 5) 5 = 4 / 5" by code_simp
  have s3: "map (\<lambda>v. py_round v 3) [0, 0, 10, 9] = [0, 0, 10, 9]" by code_simp
  have t: "save_one_txt (xyxy2xywh ex_ext) [ex_det_cls3] True (20, 10) =
      Inr [(3, (1 / 2, 9 / 40, 1, 9 / 20), Some (8 / 10))]"
    by (simp add: ex_ext_def ex_det_cls3_def)
  have j: "save_one_json (xyxy2xywh ex_ext) [ex_det_cls3] ''000042'' (class_map ex_cfg) =
      Inr [\<lparr>image_id = Inr 42, category_id = 3, bbox = [0, 0, 10, 9], score = 8 / 10\<rparr>]"
    using s1 s2 s3 by (simp add: ex_ext_def ex_det_cls3_def ex_cfg_def)
  have d: "save_dir_exists ex_cfg" "\<not> mask_head ex_cfg" by (simp_all add: ex_cfg_def)
  show ?thesis
    by (simp add: run_image_def clone_def Let_def ex_world_def ex_world_after_def ex_compute_stat
        t j d evaluator_init_def del: save_one_txt.simps save_one_json.simps)
qed

text \<open>Under \<open>single_cls\<close> the record of the image holds the coerced class 0, while the
  label file and the JSON entry hold the class 3 of the original tensor.\<close>

theorem run_image_keeps_original_witness:
  "(0::nat) < length (tensors ex_world) \<and>
   run_image ex_ext ex_cfg True True True 0 0 [''000042''] [(20, 10)] [ex_target] None None
     ex_world = Inr ex_world_after \<and>
   tensors ex_world_after ! 0 = tensors ex_world ! 0 \<and>
   map d_cls (tensors ex_world ! 0) = [3] \<and>
   map (\<lambda>l. fst (snd l)) (files ex_world_after) = [3] \<and>
   map category_id (jdict (evaluator ex_world_after)) = [3] \<and>
   map s_pcls (stats (evaluator ex_world_after)) = [[0]]"
proof -
  have n: "(0::nat) < length (tensors ex_world)" by (simp add: ex_world_def)
  from run_image_keeps_original [OF n ex_run_image] n
  have "tensors ex_world_after ! 0 = tensors ex_world ! 0" by blast
  with n ex_run_image show ?thesis
    by (simp add: ex_world_def ex_world_after_def ex_det_cls3_def)
qed

section \<open>\<open>after_infer\<close> on a run without images\<close>

lemma mean_results_init: "mean_results Metric_init = Inr [0, 0, 0, 0]"
  by (simp add: mean_results_def map50_def mp_def mr_def map_metric_def Metric_init_def)

lemma any_mean_results_init:
  "any_mean_results (metric (evaluator_init cfg)) = Inr (replicate (if mask_head cfg then 8 else 4) 0)"
  by (simp add: evaluator_init_def mean_results_init numeral_eq_Suc)

lemma get_maps_init: "get_maps Metric_init n = Inr (replicate n 0)"
  by (simp add: get_maps_def Metric_init_def ap_def map_metric_def enumerate_eq_zip)

lemma map2_add_zeros: "map2 (+) (replicate n (0::real)) (replicate n 0) = replicate n 0"
  by (induction n) auto

lemma any_get_maps_init:
  "any_get_maps (metric (evaluator_init cfg)) n = Inr (replicate n 0)"
  by (simp add: evaluator_init_def get_maps_init map2_add_zeros)

lemma ap_class_index_init: "ap_class_index Metric_init = []"
  by (simp add: Metric_init_def)

lemma print_metric_init:
  "print_metric cfg nt n_stats (metric (evaluator_init cfg)) = Inr ()"
  by (simp add: print_metric_def evaluator_init_def mean_results_init ap_class_index_init)

lemma after_infer_Inr:
  assumes "after_infer ext cfg self = Inr (t, self')"
  shows "seen self \<noteq> 0 \<and> speeds (dt self) (seen self) = Inr t"
  using assms unfolding after_infer_def Let_def
  by (auto split: if_splits sum.splits simp: speeds_def)

text \<open>Claim C6, as the code has it. \<open>after_infer\<close> does not guard the division by the
  seen-image count: the speed computation raises \<open>ZeroDivisionError\<close> for a count
  of zero and gives each accumulated time divided by the count, times 1000, for a
  positive one, so \<open>after_infer\<close> returns a speed tuple only when at least one image
  was seen. The mean results of the metric that was never updated are zeros.\<close>

theorem after_infer_speeds_unguarded:
  "speeds d 0 = Inl ZeroDivisionError \<and>
   (0 < n \<longrightarrow> speeds (a, b, c) n = Inr (a / real n * 1000, b / real n * 1000, c / real n * 1000)) \<and>
   (\<forall>t self'. after_infer ext cfg self = Inr (t, self') \<longrightarrow>
      seen self \<noteq> 0 \<and> speeds (dt self) (seen self) = Inr t) \<and>
   any_mean_results (metric (evaluator_init cfg)) = Inr (replicate (if mask_head cfg then 8 else 4) 0)"
  using after_infer_Inr [of ext cfg self] any_mean_results_init [of cfg]
  by (auto simp: speeds_def)

theorem after_infer_speeds_unguarded_witness:
  "(0::nat) < 2 \<and> speeds (1, 2, 3) 2 = Inr (500, 1000, 1500) \<and>
   after_infer ex_ext ex_cfg ex_seen = Inr ((500, 1000, 1500), ex_seen\<lparr>stats := []\<rparr>) \<and>
   seen ex_seen \<noteq> 0 \<and> speeds (dt ex_seen) (seen ex_seen) = Inr (500, 1000, 1500)"
proof -
  have a: "after_infer ex_ext ex_cfg ex_seen = Inr ((500, 1000, 1500), ex_seen\<lparr>stats := []\<rparr>)"
    by (simp add: after_infer_def ex_seen_def ex_stat_def evaluator_init_def ex_cfg_def any_true_def
        print_metric_def mean_results_init speeds_def)
  have n: "(0::nat) < 2" by simp
  from after_infer_speeds_unguarded [of "(1, 2, 3)" 2 1 2 3 ex_ext ex_cfg ex_seen] n a
  have "speeds (1, 2, 3) 2 = Inr (1 / real 2 * 1000, 2 / real 2 * 1000, 3 / real 2 * 1000)"
    and b: "seen ex_seen \<noteq> 0 \<and> speeds (dt ex_seen) (seen ex_seen) = Inr (500, 1000, 1500)"
    by blast+
  then have "speeds (1, 2, 3) 2 = Inr (500, 1000, 1500)" by simp
  with n a b show ?thesis by blast
qed

text \<open>Claim C6 as stated fails on the evaluator as \<open>__init__\<close> leaves it, which is
  the state after a run over an empty dataset: \<open>after_infer\<close> raises, and the
  division it would reach divides by a zero count.\<close>

theorem after_infer_empty_dataset_counterexample:
  "after_infer ex_ext ex_cfg (evaluator_init ex_cfg :: unit evaluator) = Inl IndexError \<and>
   seen (evaluator_init ex_cfg :: unit evaluator) = 0 \<and>
   speeds (dt (evaluator_init ex_cfg :: unit evaluator)) (seen (evaluator_init ex_cfg :: unit evaluator))
     = Inl ZeroDivisionError"
  by (simp add: after_infer_def evaluator_init_def speeds_def)

section \<open>\<open>after_infer\<close> on a run without true positives\<close>

text \<open>With at least one record and no true entry in any recorded matrix,
  \<open>after_infer\<close> skips the aggregation, leaves the metric as it was and returns the
  speeds; the mean results and \<open>get_maps\<close> of the never-updated metric are zeros.\<close>

lemma after_infer_zero_true_positives:
  assumes "stats self \<noteq> []" and "0 < seen self"
    and "\<not> any_true (concat (map s_masks (stats self)))"
    and "\<not> any_true (concat (map s_boxes (stats self)))"
    and "metric self = metric (evaluator_init cfg)"
  shows "after_infer ext cfg self =
           Inr ((case dt self of (a, b, c) \<Rightarrow>
                   (a / real (seen self) * 1000, b / real (seen self) * 1000,
                    c / real (seen self) * 1000)),
                self\<lparr>stats := []\<rparr>) \<and>
         any_mean_results (metric self) = Inr (replicate (if mask_head cfg then 8 else 4) 0) \<and>
         any_get_maps (metric self) (nc cfg) = Inr (replicate (nc cfg) 0)"
proof -
  have pm: "print_metric cfg nt k (metric self) = Inr ()" for nt k
    using print_metric_init [of cfg nt k] assms(5) by simp
  have sp: "speeds (dt self) (seen self) =
      Inr (case dt self of (a, b, c) \<Rightarrow>
             (a / real (seen self) * 1000, b / real (seen self) * 1000,
              c / real (seen self) * 1000))"
    using assms(2) by (cases "dt self") (simp add: speeds_def)
  have "after_infer ext cfg self =
      Inr ((case dt self of (a, b, c) \<Rightarrow>
              (a / real (seen self) * 1000, b / real (seen self) * 1000,
               c / real (seen self) * 1000)),
           self\<lparr>stats := []\<rparr>)"
    using assms(1,3,4) by (simp add: after_infer_def Let_def pm sp)
  then show ?thesis
    by (simp add: assms(5) any_mean_results_init any_get_maps_init)
qed

lemma after_infer_no_stats: "stats self = [] \<Longrightarrow> after_infer ext cfg self = Inl IndexError"
  by (simp add: after_infer_def)

text \<open>Claim C8 fails on a run that recorded nothing. An image without labels and
  without detections leaves \<open>self.stats\<close> empty; every recorded matrix is then all
  false, there being none, and \<open>after_infer\<close> raises at \<open>stats[0]\<close>, which it
  evaluates before its \<open>len(stats)\<close> test, instead of reporting zeros.\<close>

theorem after_infer_no_records_raises:
  "compute_stat ex_ext ex_cfg 0 [] [] None None ((evaluator_init ex_cfg)\<lparr>seen := 1\<rparr> :: unit evaluator)
     = Inr ([], (evaluator_init ex_cfg)\<lparr>seen := 1\<rparr>) \<and>
   after_infer ex_ext ex_cfg ((evaluator_init ex_cfg)\<lparr>seen := 1\<rparr> :: unit evaluator) = Inl IndexError"
  by (simp add: compute_stat_def select_masks_def select_proto_def after_infer_def evaluator_init_def)

end
